theory Spec2Isabelle
  imports Complex_Main "HOL-Library.AList"
begin

section \<open>Python values, dictionaries and exceptions\<close>

text \<open>
  The service is Python: \<^verbatim>\<open>src/main.py\<close> holds the request handlers and the extraction
  heuristic, \<^verbatim>\<open>src/schemas.py\<close> the two pydantic schemas. Strings are character lists. A
  Python \<^verbatim>\<open>float\<close> that was read from a decimal numeral is kept as the rational number the
  numeral denotes (rounding to binary64 is not modelled; the values that matter below,
  \<open>250.5\<close>, \<open>199\<close>, \<open>1\<close>, are exact in binary64). A \<^verbatim>\<open>dict\<close> is an association list in
  insertion order, looked up with \<open>map_of\<close>.
\<close>

datatype pyval = PNone | PBool bool | PStr string | PInt int | PFloat rat | PObjectId int

type_synonym dict = "(string \<times> pyval) list"

text \<open>
  Exceptions are values. \<open>HTTPException\<close> carries the status code and the detail; the detail
  of the exception raised at line 181 is \<^verbatim>\<open>str(e)\<close> of the exception that was caught, kept
  symbolically as \<open>StrOf e\<close>.
\<close>

datatype exn =
    HTTPException nat detail
  | InvalidId string
  | ValidationError string
  | StoreError string
  | OSError string
and detail = Text string | StrOf exn

section \<open>String methods used by the extraction heuristic\<close>

definition is_digit_char :: "char \<Rightarrow> bool" where
  "is_digit_char c = (c \<in> set ''0123456789'')"

definition is_alpha_char :: "char \<Rightarrow> bool" where
  "is_alpha_char c =
     (c \<in> set ''abcdefghijklmnopqrstuvwxyzABCDEFGHIJKLMNOPQRSTUVWXYZ'')"

text \<open>\<^verbatim>\<open>str.isdigit\<close> and \<^verbatim>\<open>str.isalpha\<close>: false on the empty string. The character
  classes are the ASCII ones; file names are read as ASCII text.\<close>

definition isdigit :: "string \<Rightarrow> bool" where
  "isdigit s = (s \<noteq> [] \<and> list_all is_digit_char s)"

definition isalpha :: "string \<Rightarrow> bool" where
  "isalpha s = (s \<noteq> [] \<and> list_all is_alpha_char s)"

definition upper_char :: "char \<Rightarrow> char" where
  "upper_char c =
     (case map_of (zip ''abcdefghijklmnopqrstuvwxyz'' ''ABCDEFGHIJKLMNOPQRSTUVWXYZ'') c of
        Some u \<Rightarrow> u | None \<Rightarrow> c)"

definition lower_char :: "char \<Rightarrow> char" where
  "lower_char c =
     (case map_of (zip ''ABCDEFGHIJKLMNOPQRSTUVWXYZ'' ''abcdefghijklmnopqrstuvwxyz'') c of
        Some l \<Rightarrow> l | None \<Rightarrow> c)"

text \<open>\<^verbatim>\<open>str.capitalize\<close>: first character upper case, the rest lower case.\<close>

fun capitalize :: "string \<Rightarrow> string" where
  "capitalize [] = []"
| "capitalize (c # cs) = upper_char c # map lower_char cs"

text \<open>\<^verbatim>\<open>s.replace(old, new)\<close> for one-character \<open>old\<close> and \<open>new\<close>, and
  \<^verbatim>\<open>s.replace(old, "", 1)\<close>, which deletes the first occurrence only.\<close>

definition replace_char :: "char \<Rightarrow> char \<Rightarrow> string \<Rightarrow> string" where
  "replace_char old new s = map (\<lambda>c. if c = old then new else c) s"

definition replace_first_by_empty :: "char \<Rightarrow> string \<Rightarrow> string" where
  "replace_first_by_empty old s = remove1 old s"

text \<open>\<^verbatim>\<open>s.split(sep)\<close> for a one-character separator: empty pieces are kept, and the empty
  string splits into one empty piece.\<close>

fun str_split :: "char \<Rightarrow> string \<Rightarrow> string list" where
  "str_split sep [] = [[]]"
| "str_split sep (c # cs) =
     (if c = sep then [] # str_split sep cs
      else (case str_split sep cs of
              [] \<Rightarrow> [[c]]
            | t # ts \<Rightarrow> (c # t) # ts))"

text \<open>\<^verbatim>\<open>os.path.basename\<close>, \<^verbatim>\<open>os.path.splitext\<close> and \<^verbatim>\<open>os.path.join\<close> of \<^verbatim>\<open>posixpath\<close>.
  \<open>splitext\<close> cuts at the last dot of the last path component, unless only dots precede
  it there.\<close>

definition basename :: "string \<Rightarrow> string" where
  "basename p = rev (takeWhile (\<lambda>c. c \<noteq> CHR ''/'') (rev p))"

definition splitext :: "string \<Rightarrow> string \<times> string" where
  "splitext p =
     (let name = basename p;
          after_dot = rev (takeWhile (\<lambda>c. c \<noteq> CHR ''.'') (rev name));
          dot_index = length p - length after_dot - 1
      in if CHR ''.'' \<in> set name
            \<and> list_ex (\<lambda>c. c \<noteq> CHR ''.'') (take (length name - length after_dot - 1) name)
         then (take dot_index p, drop dot_index p)
         else (p, []))"

definition path_join :: "string \<Rightarrow> string \<Rightarrow> string" where
  "path_join a b =
     (if b \<noteq> [] \<and> hd b = CHR ''/'' then b
      else if a = [] then b
      else if last a = CHR ''/'' then a @ b
      else a @ ''/'' @ b)"

text \<open>\<^verbatim>\<open>str(n)\<close> of an integer, in decimal.\<close>

definition digit_char :: "int \<Rightarrow> char" where
  "digit_char d = ''0123456789'' ! nat (d mod 10)"

function str_digits :: "int \<Rightarrow> string" where
  "str_digits n =
     (if n < 10 then [digit_char n] else str_digits (n div 10) @ [digit_char (n mod 10)])"
  by pat_completeness auto
termination
  by (relation "measure nat") auto

declare str_digits.simps [simp del]

definition str_int :: "int \<Rightarrow> string" where
  "str_int i = (if i < 0 then CHR ''-'' # str_digits (- i) else str_digits i)"

text \<open>
  \<^verbatim>\<open>float(p)\<close> on the strings the heuristic passes to it. The guard at line 56 lets
  through digit strings with at most one dot; on these \<open>float\<close> returns the decimal value.
  On any other string the model answers \<open>None\<close>, the \<^verbatim>\<open>ValueError\<close> that the
  \<^verbatim>\<open>try\<close> of lines 57-60 swallows.
\<close>

definition digit_val :: "char \<Rightarrow> int" where
  "digit_val c =
     (case map_of (zip ''0123456789'' [0, 1, 2, 3, 4, 5, 6, 7, 8, 9]) c of
        Some d \<Rightarrow> d | None \<Rightarrow> 0)"

definition digits_value :: "string \<Rightarrow> int" where
  "digits_value s = foldl (\<lambda>a c. 10 * a + digit_val c) 0 s"

definition float_of_str :: "string \<Rightarrow> rat option" where
  "float_of_str p =
     (let ip = takeWhile (\<lambda>c. c \<noteq> CHR ''.'') p;
          fp = drop 1 (dropWhile (\<lambda>c. c \<noteq> CHR ''.'') p)
      in if list_all is_digit_char ip \<and> list_all is_digit_char fp \<and> \<not> (ip = [] \<and> fp = [])
         then Some (of_int (digits_value ip) + of_int (digits_value fp) / 10 ^ length fp)
         else None)"

section \<open>The clock\<close>

text \<open>
  A reading of \<^verbatim>\<open>datetime.now()\<close>: its calendar date, and \<open>posix\<close>, the value of
  \<^verbatim>\<open>int(datetime.now().timestamp())\<close>. Every call of \<^verbatim>\<open>datetime.now()\<close> in the source is
  an argument of the model, so two calls may read different times.
\<close>

record datetime =
  year :: int
  month :: int
  day :: int
  posix :: int

definition zfill :: "nat \<Rightarrow> string \<Rightarrow> string" where
  "zfill w s = replicate (w - length s) CHR ''0'' @ s"

text \<open>\<^verbatim>\<open>strftime("%Y-%m-%d")\<close>, for the years 1000 to 9999 that a clock reading has.\<close>

definition strftime_Ymd :: "datetime \<Rightarrow> string" where
  "strftime_Ymd t =
     zfill 4 (str_digits (year t)) @ ''-'' @ zfill 2 (str_digits (month t)) @ ''-''
       @ zfill 2 (str_digits (day t))"

section \<open>The extraction heuristic\<close>

text \<open>
  \<^verbatim>\<open>mock_ai_extract\<close>, lines 47-70 of \<^verbatim>\<open>src/main.py\<close>. The loop body is \<open>scan_part\<close>, on
  the loop's three variables \<open>(vendor, total_amount, date_str)\<close>; the three tests are
  independent \<^verbatim>\<open>if\<close>s, as in the source.
  \<open>now1\<close> is the clock reading of line 50, \<open>now2\<close> that of line 52.
\<close>

definition scan_part :: "string \<Rightarrow> string \<times> rat \<times> string \<Rightarrow> string \<times> rat \<times> string" where
  "scan_part p st =
     (case st of (vendor, total_amount, date_str) \<Rightarrow>
        (let total_amount =
               (if isdigit (replace_first_by_empty CHR ''.'' p)
                then (case float_of_str p of Some v \<Rightarrow> v | None \<Rightarrow> total_amount)
                else total_amount);
             vendor = (if length p \<ge> 3 \<and> isalpha p then capitalize p else vendor);
             date_str =
               (if length p = 10 \<and> p ! 4 = CHR ''-'' \<and> p ! 7 = CHR ''-'' then p else date_str)
         in (vendor, total_amount, date_str)))"

definition name_parts :: "string \<Rightarrow> string list" where
  "name_parts file_path =
     (let base = basename file_path;
          name_without_ext = fst (splitext base)
      in str_split CHR ''_'' (replace_char CHR ''-'' CHR ''_'' name_without_ext))"

definition mock_ai_scan :: "datetime \<Rightarrow> string \<Rightarrow> string \<times> rat \<times> string" where
  "mock_ai_scan now2 file_path =
     fold scan_part (name_parts file_path) (''Acme Corp'', 199, strftime_Ymd now2)"

definition mock_ai_extract :: "datetime \<Rightarrow> datetime \<Rightarrow> string \<Rightarrow> dict" where
  "mock_ai_extract now1 now2 file_path =
     (case mock_ai_scan now2 file_path of (vendor, total_amount, date_str) \<Rightarrow>
        (let invoice_number = ''INV-'' @ str_int (posix now1)
         in [(''vendor_name'', PStr vendor),
             (''invoice_number'', PStr invoice_number),
             (''total_amount'', PFloat total_amount),
             (''date'', PStr date_str)]))"

section \<open>The document store and the upload directory\<close>

text \<open>
  The store is MongoDB, reached through \<^verbatim>\<open>pymongo\<close>; neither is code of this repository.
  A collection is the list of its documents in natural order, each a dictionary with its
  identifier under \<open>''_id''\<close>. \<open>disk\<close> is the upload directory, path to content.
  \<open>empty_set_rejected\<close> says whether the server answers an update whose \<^verbatim>\<open>$set\<close> operand
  is the empty document with an error (MongoDB servers before 5.0 do, later ones accept it
  as a no-op); the source does not fix the server, so the model takes it as given.
\<close>

record backend =
  collections :: "string \<Rightarrow> dict list"
  disk :: "(string \<times> string) list"
  empty_set_rejected :: bool

text \<open>
  \<^verbatim>\<open>bson.ObjectId(s)\<close>: a string of 24 hexadecimal digits denotes the 12-byte identifier with
  that value; anything else raises \<^verbatim>\<open>InvalidId\<close>. \<open>str_ObjectId\<close> is \<^verbatim>\<open>str\<close> of an identifier,
  24 lower-case hexadecimal digits.
\<close>

definition hex_val :: "char \<Rightarrow> int option" where
  "hex_val c =
     map_of (zip ''0123456789abcdefABCDEF''
               [0, 1, 2, 3, 4, 5, 6, 7, 8, 9, 10, 11, 12, 13, 14, 15, 10, 11, 12, 13, 14, 15]) c"

definition is_hex_char :: "char \<Rightarrow> bool" where
  "is_hex_char c = (c \<in> set ''0123456789abcdefABCDEF'')"

definition hex_value :: "string \<Rightarrow> int" where
  "hex_value s = foldl (\<lambda>a c. 16 * a + (case hex_val c of Some d \<Rightarrow> d | None \<Rightarrow> 0)) 0 s"

definition ObjectId :: "string \<Rightarrow> exn + int" where
  "ObjectId s =
     (if length s = 24 \<and> list_all is_hex_char s then Inr (hex_value s) else Inl (InvalidId s))"

definition hex_char :: "int \<Rightarrow> char" where
  "hex_char d = ''0123456789abcdef'' ! nat (d mod 16)"

function hex_digits :: "int \<Rightarrow> string" where
  "hex_digits n =
     (if n < 16 then [hex_char n] else hex_digits (n div 16) @ [hex_char (n mod 16)])"
  by pat_completeness auto
termination
  by (relation "measure nat") auto

declare hex_digits.simps [simp del]

definition str_ObjectId :: "int \<Rightarrow> string" where
  "str_ObjectId n = zfill 24 (hex_digits n)"

text \<open>
  A query filter is a dictionary of required field values. \<^verbatim>\<open>update_one\<close> with the update
  document \<^verbatim>\<open>{"$set": updates}\<close> writes the fields of \<open>updates\<close> into the first document
  that matches and reports how many documents matched (0 or 1). \<open>fault\<close> is a failure of
  the call that does not depend on the data (the server is unreachable, \<^verbatim>\<open>db\<close> is
  \<^verbatim>\<open>None\<close>), chosen by the environment.
\<close>

definition matches :: "dict \<Rightarrow> dict \<Rightarrow> bool" where
  "matches flt doc = list_all (\<lambda>kv. map_of doc (fst kv) = Some (snd kv)) flt"

definition apply_set :: "dict \<Rightarrow> dict \<Rightarrow> dict" where
  "apply_set updates doc = fold (\<lambda>kv d. AList.update (fst kv) (snd kv) d) updates doc"

fun update_first :: "dict \<Rightarrow> dict \<Rightarrow> dict list \<Rightarrow> dict list \<times> nat" where
  "update_first flt updates [] = ([], 0)"
| "update_first flt updates (d # ds) =
     (if matches flt d then (apply_set updates d # ds, 1)
      else (case update_first flt updates ds of (ds', n) \<Rightarrow> (d # ds', n)))"

definition update_one ::
  "backend \<Rightarrow> exn option \<Rightarrow> string \<Rightarrow> dict \<Rightarrow> dict \<Rightarrow> exn + backend \<times> nat" where
  "update_one b fault coll flt updates =
     (case fault of
        Some e \<Rightarrow> Inl e
      | None \<Rightarrow>
          if updates = [] \<and> empty_set_rejected b
          then Inl (StoreError ''$set is empty'')
          else (case update_first flt updates (collections b coll) of
                  (ds', matched_count) \<Rightarrow>
                    Inr (b\<lparr>collections := (collections b)(coll := ds')\<rparr>, matched_count)))"

text \<open>
  Modelled from the spec: \<^verbatim>\<open>create_document\<close> of \<^verbatim>\<open>database.py\<close>, which is not among the
  sources. The spec gives it as \<^verbatim>\<open>insert(collection, document) -> id\<close>, the identifier
  being opaque and assigned by the store. \<open>outcome\<close> is what the store answers: a failure,
  or the identifier it assigns. The document is stored under that identifier and the
  identifier's string is returned.
\<close>

definition create_document ::
  "backend \<Rightarrow> exn + int \<Rightarrow> string \<Rightarrow> dict \<Rightarrow> (exn + string) \<times> backend" where
  "create_document b outcome coll data =
     (case outcome of
        Inl e \<Rightarrow> (Inl e, b)
      | Inr oid \<Rightarrow>
          (Inr (str_ObjectId oid),
           b\<lparr>collections := (collections b)(coll := collections b coll @ [(''_id'', PObjectId oid) # data])\<rparr>))"

section \<open>The schemas\<close>

text \<open>
  \<^verbatim>\<open>src/schemas.py\<close>. Constructing a pydantic model validates it; the result here is the
  model's \<^verbatim>\<open>model_dump()\<close>, or the \<^verbatim>\<open>ValidationError\<close>. \<open>User\<close> constrains
  \<open>subscription_tier\<close> and \<open>role\<close> to their literals and \<open>credits_remaining\<close> by
  \<^verbatim>\<open>ge=0\<close>; \<open>Invoice\<close> constrains \<open>status\<close> to its literals and \<open>total_amount\<close> by \<^verbatim>\<open>ge=0\<close>.
\<close>

definition opt_str :: "string option \<Rightarrow> pyval" where
  "opt_str v = (case v of None \<Rightarrow> PNone | Some s \<Rightarrow> PStr s)"

definition opt_float :: "rat option \<Rightarrow> pyval" where
  "opt_float v = (case v of None \<Rightarrow> PNone | Some x \<Rightarrow> PFloat x)"

definition User :: "string \<Rightarrow> string \<Rightarrow> string \<Rightarrow> int \<Rightarrow> string \<Rightarrow> exn + dict" where
  "User name email subscription_tier credits_remaining role =
     (if subscription_tier \<notin> set [''Free'', ''Pro''] then Inl (ValidationError ''subscription_tier'')
      else if credits_remaining < 0 then Inl (ValidationError ''credits_remaining'')
      else if role \<notin> set [''admin'', ''customer''] then Inl (ValidationError ''role'')
      else Inr [(''name'', PStr name),
                (''email'', PStr email),
                (''subscription_tier'', PStr subscription_tier),
                (''credits_remaining'', PInt credits_remaining),
                (''role'', PStr role)])"

definition Invoice ::
  "string \<Rightarrow> string option \<Rightarrow> string option \<Rightarrow> string option \<Rightarrow> string option \<Rightarrow> string option
     \<Rightarrow> rat option \<Rightarrow> string \<Rightarrow> exn + dict" where
  "Invoice user_id file_path file_name invoice_number vendor_name date total_amount status =
     (if (case total_amount of None \<Rightarrow> False | Some x \<Rightarrow> x < 0)
      then Inl (ValidationError ''total_amount'')
      else if status \<notin> set [''Processing'', ''Needs Review'', ''Approved'']
      then Inl (ValidationError ''status'')
      else Inr [(''user_id'', PStr user_id),
                (''file_path'', opt_str file_path),
                (''file_name'', opt_str file_name),
                (''invoice_number'', opt_str invoice_number),
                (''vendor_name'', opt_str vendor_name),
                (''date'', opt_str date),
                (''total_amount'', opt_float total_amount),
                (''status'', PStr status)])"

section \<open>The request handlers\<close>

record CreateUserRequest =
  name :: string
  email :: string
  subscription_tier :: string
  role :: string

record UpdateInvoiceRequest =
  invoice_id :: string
  invoice_number :: "string option"
  vendor_name :: "string option"
  date :: "string option"
  total_amount :: "rat option"
  status :: "string option"

record UploadFile =
  filename :: string
  content :: string

definition UPLOAD_DIR :: string where
  "UPLOAD_DIR = ''uploads''"

text \<open>\<^verbatim>\<open>create_user\<close>, lines 94-104. \<open>outcome\<close> is the store's answer to the insert.\<close>

definition create_user ::
  "backend \<Rightarrow> exn + int \<Rightarrow> CreateUserRequest \<Rightarrow> (exn + dict) \<times> backend" where
  "create_user b outcome payload =
     (case User (name payload) (email payload) (subscription_tier payload)
             (if subscription_tier payload = ''Free'' then 50 else 1000) (role payload) of
        Inl e \<Rightarrow> (Inl e, b)
      | Inr user \<Rightarrow>
          (case create_document b outcome ''user'' user of
             (Inl e, b') \<Rightarrow> (Inl e, b')
           | (Inr user_id, b') \<Rightarrow> (Inr [(''id'', PStr user_id)], b')))"

text \<open>
  \<^verbatim>\<open>upload_invoice\<close>, lines 117-147. The environment of one call: the clock readings of
  lines 126, 50 and 52, a failure of the write to disk if there is one, the store's answer
  to the insert, and a failure of the patch call if there is one. The \<^verbatim>\<open>try\<close> of lines
  141-145 is \<open>patch_extracted\<close>; its \<^verbatim>\<open>except Exception: pass\<close> keeps the backend as
  it was. \<open>new_id\<close> is the source's local \<^verbatim>\<open>invoice_id\<close>. The returned dictionary
  \<^verbatim>\<open>{"id": ..., **extracted, "status": ...}\<close> is built key by key, a later key replacing
  an earlier equal one.
\<close>

record upload_env =
  now_upload :: datetime
  now_number :: datetime
  now_date :: datetime
  disk_fault :: "exn option"
  insert_outcome :: "exn + int"
  patch_fault :: "exn option"

definition patch_extracted :: "backend \<Rightarrow> exn option \<Rightarrow> string \<Rightarrow> dict \<Rightarrow> exn + backend \<times> nat" where
  "patch_extracted b fault new_id extracted =
     (case ObjectId new_id of
        Inl e \<Rightarrow> Inl e
      | Inr oid \<Rightarrow> update_one b fault ''invoice'' [(''_id'', PObjectId oid)] extracted)"

definition upload_invoice ::
  "backend \<Rightarrow> upload_env \<Rightarrow> UploadFile \<Rightarrow> string option \<Rightarrow> (exn + dict) \<times> backend" where
  "upload_invoice b env file current_user =
     (case current_user of
        None \<Rightarrow> (Inl (HTTPException 401 (Text ''Missing x-user-id header'')), b)
      | Some u \<Rightarrow>
          (let file_name = str_int (posix (now_upload env)) @ ''_'' @ filename file;
               file_path = path_join UPLOAD_DIR file_name
           in case disk_fault env of
                Some e \<Rightarrow> (Inl e, b)
              | None \<Rightarrow>
                  (let b1 = b\<lparr>disk := AList.update file_path (content file) (disk b)\<rparr>
                   in case Invoice u (Some file_path) (Some (filename file)) None None None None
                             ''Processing'' of
                        Inl e \<Rightarrow> (Inl e, b1)
                      | Inr inv_doc \<Rightarrow>
                          (case create_document b1 (insert_outcome env) ''invoice'' inv_doc of
                             (Inl e, b2) \<Rightarrow> (Inl e, b2)
                           | (Inr new_id, b2) \<Rightarrow>
                               (let extracted =
                                      mock_ai_extract (now_number env) (now_date env) file_path;
                                    b3 = (case patch_extracted b2 (patch_fault env) new_id
                                                 extracted of
                                            Inl e \<Rightarrow> b2
                                          | Inr (b', n) \<Rightarrow> b')
                                in (Inr (apply_set ((''id'', PStr new_id) # extracted
                                                      @ [(''status'', PStr ''Needs Review'')]) []),
                                    b3))))))"

text \<open>
  \<^verbatim>\<open>update_invoice\<close>, lines 170-182. \<open>model_dump\<close> is the request as a dictionary, \<open>updates\<close>
  the comprehension of line 176. \<open>update_invoice_try\<close> is the body of the \<^verbatim>\<open>try\<close>, lines
  175-179, the \<^verbatim>\<open>raise\<close> of line 179 included; the \<^verbatim>\<open>except Exception\<close> of line 180
  catches every exception that body raises.
\<close>

definition model_dump :: "UpdateInvoiceRequest \<Rightarrow> dict" where
  "model_dump payload =
     [(''invoice_id'', PStr (invoice_id payload)),
      (''invoice_number'', opt_str (invoice_number payload)),
      (''vendor_name'', opt_str (vendor_name payload)),
      (''date'', opt_str (date payload)),
      (''total_amount'', opt_float (total_amount payload)),
      (''status'', opt_str (status payload))]"

definition updates_of :: "UpdateInvoiceRequest \<Rightarrow> dict" where
  "updates_of payload =
     filter (\<lambda>kv. fst kv \<noteq> ''invoice_id'' \<and> snd kv \<noteq> PNone) (model_dump payload)"

definition update_invoice_try ::
  "backend \<Rightarrow> exn option \<Rightarrow> UpdateInvoiceRequest \<Rightarrow> string \<Rightarrow> (exn + unit) \<times> backend" where
  "update_invoice_try b fault payload current_user =
     (let updates = updates_of payload
      in case ObjectId (invoice_id payload) of
           Inl e \<Rightarrow> (Inl e, b)
         | Inr oid \<Rightarrow>
             (case update_one b fault ''invoice''
                     [(''_id'', PObjectId oid), (''user_id'', PStr current_user)] updates of
                Inl e \<Rightarrow> (Inl e, b)
              | Inr (b', matched_count) \<Rightarrow>
                  if matched_count = 0
                  then (Inl (HTTPException 404 (Text ''Invoice not found'')), b')
                  else (Inr (), b')))"

definition update_invoice ::
  "backend \<Rightarrow> exn option \<Rightarrow> UpdateInvoiceRequest \<Rightarrow> string option \<Rightarrow> (exn + dict) \<times> backend" where
  "update_invoice b fault payload current_user =
     (case current_user of
        None \<Rightarrow> (Inl (HTTPException 401 (Text ''Missing x-user-id header'')), b)
      | Some u \<Rightarrow>
          (case update_invoice_try b fault payload u of
             (Inl e, b') \<Rightarrow> (Inl (HTTPException 400 (StrOf e)), b')
           | (Inr ok, b') \<Rightarrow> (Inr [(''ok'', PBool True)], b')))"

section \<open>Example data\<close>

text \<open>
  Concrete inputs for the evaluations below: a clock reading (7 May 2024, POSIX time
  1715000000), an empty backend, an upload environment without failures in which the
  store assigns the identifier \<open>0x\<dots>ff\<close>, the two files of the spec's examples, the backend
  as it is after alice has uploaded the first of them, and update requests that name an
  invoice and set at most the amount and the status.
\<close>

definition example_clock :: datetime where
  "example_clock = \<lparr>year = 2024, month = 5, day = 7, posix = 1715000000\<rparr>"

definition empty_backend :: backend where
  "empty_backend = \<lparr>collections = (\<lambda>c. []), disk = [], empty_set_rejected = False\<rparr>"

definition example_env :: upload_env where
  "example_env =
     \<lparr>now_upload = example_clock, now_number = example_clock, now_date = example_clock,
      disk_fault = None, insert_outcome = Inr 255, patch_fault = None\<rparr>"

definition acme_file :: UploadFile where
  "acme_file = \<lparr>filename = ''acme_250.50_2024-03-01.pdf'', content = ''%PDF''\<rparr>"


definition alice_invoice :: dict where
  "alice_invoice =
     [(''_id'', PObjectId 255), (''user_id'', PStr ''alice''),
      (''file_path'', PStr ''uploads/1715000000_acme_250.50_2024-03-01.pdf''),
      (''file_name'', PStr ''acme_250.50_2024-03-01.pdf''),
      (''invoice_number'', PStr ''INV-1715000000''), (''vendor_name'', PStr ''Acme''),
      (''date'', PStr ''2024-05-07''), (''total_amount'', PFloat 1),
      (''status'', PStr ''Processing'')]"

definition alice_backend :: backend where
  "alice_backend =
     \<lparr>collections = (\<lambda>c. if c = ''invoice'' then [alice_invoice] else []),
      disk = [(''uploads/1715000000_acme_250.50_2024-03-01.pdf'', ''%PDF'')],
      empty_set_rejected = False\<rparr>"

definition update_request ::
  "string \<Rightarrow> rat option \<Rightarrow> string option \<Rightarrow> UpdateInvoiceRequest" where
  "update_request i amount st =
     \<lparr>invoice_id = i, invoice_number = None, vendor_name = None, date = None,
      total_amount = amount, status = st\<rparr>"

section \<open>Properties of the extraction heuristic\<close>

subsection \<open>No token contains a dash\<close>

lemma str_split_chars: "t \<in> set (str_split sep s) \<Longrightarrow> set t \<subseteq> set s"
proof (induction s arbitrary: t)
  case Nil
  then show ?case by simp
next
  case (Cons c cs)
  show ?case
  proof (cases "c = sep")
    case True
    with Cons.prems have "t = [] \<or> t \<in> set (str_split sep cs)" by simp
    with Cons.IH show ?thesis by auto
  next
    case False
    show ?thesis
    proof (cases "str_split sep cs")
      case Nil
      with False Cons.prems show ?thesis by simp
    next
      case (Cons u us)
      with False Cons.prems have "t = c # u \<or> t \<in> set us" by simp
      moreover have "set u \<subseteq> set cs" using Cons.IH [of u] Cons by simp
      moreover have "t \<in> set us \<Longrightarrow> set t \<subseteq> set cs" using Cons.IH [of t] Cons by simp
      ultimately show ?thesis by auto
    qed
  qed
qed

lemma replace_char_removes: "old \<noteq> new \<Longrightarrow> old \<notin> set (replace_char old new s)"
  by (auto simp: replace_char_def)

lemma name_parts_no_dash: "p \<in> set (name_parts file_path) \<Longrightarrow> CHR ''-'' \<notin> set p"
proof
  assume p: "p \<in> set (name_parts file_path)" and d: "CHR ''-'' \<in> set p"
  let ?s = "replace_char CHR ''-'' CHR ''_'' (fst (splitext (basename file_path)))"
  from p have "p \<in> set (str_split CHR ''_'' ?s)" by (simp add: name_parts_def Let_def)
  then have "set p \<subseteq> set ?s" by (rule str_split_chars)
  with d have "CHR ''-'' \<in> set ?s" by blast
  moreover have "CHR ''-'' \<notin> set ?s" by (rule replace_char_removes) simp
  ultimately show False by simp
qed

lemma date_rule_needs_dash:
  assumes "length p = 10" and "p ! 4 = CHR ''-''"
  shows "CHR ''-'' \<in> set p"
proof -
  have "p ! 4 \<in> set p" using assms(1) by (intro nth_mem) simp
  with assms(2) show ?thesis by simp
qed

lemma scan_part_date: "CHR ''-'' \<notin> set p \<Longrightarrow> snd (snd (scan_part p st)) = snd (snd st)"
  using date_rule_needs_dash [of p]
  by (cases st) (auto simp: scan_part_def Let_def)

lemma fold_scan_part_date:
  "list_all (\<lambda>p. CHR ''-'' \<notin> set p) ps \<Longrightarrow> snd (snd (fold scan_part ps st)) = snd (snd st)"
  by (induction ps arbitrary: st) (simp_all add: scan_part_date)

lemma name_parts_all_no_dash: "list_all (\<lambda>p. CHR ''-'' \<notin> set p) (name_parts file_path)"
  by (simp add: list_all_iff name_parts_no_dash)

lemma mock_ai_scan_date: "snd (snd (mock_ai_scan now2 file_path)) = strftime_Ymd now2"
  by (simp add: mock_ai_scan_def fold_scan_part_date name_parts_all_no_dash)

lemma mock_ai_extract_date:
  "map_of (mock_ai_extract now1 now2 file_path) ''date'' = Some (PStr (strftime_Ymd now2))"
  using mock_ai_scan_date [of now2 file_path]
  by (cases "mock_ai_scan now2 file_path") (simp add: mock_ai_extract_def)

text \<open>
  The default date has the shape the date test of line 63 looks for: ten characters with
  dashes at positions 4 and 7, for every calendar date of a four-digit year.
\<close>

lemma str_digits_length_1: "n < 10 \<Longrightarrow> length (str_digits n) = 1"
  by (subst str_digits.simps) simp

lemma str_digits_length_2:
  assumes "10 \<le> n" and "n < 100"
  shows "length (str_digits n) = 2"
proof -
  have "n div 10 < 10" using assms by presburger
  then show ?thesis
    using assms by (subst str_digits.simps) (simp add: str_digits_length_1)
qed

lemma str_digits_length_3:
  assumes "100 \<le> n" and "n < 1000"
  shows "length (str_digits n) = 3"
proof -
  have "10 \<le> n div 10" "n div 10 < 100" using assms by presburger+
  then show ?thesis
    using assms by (subst str_digits.simps) (simp add: str_digits_length_2)
qed

lemma str_digits_length_4:
  assumes "1000 \<le> n" and "n < 10000"
  shows "length (str_digits n) = 4"
proof -
  have "100 \<le> n div 10" "n div 10 < 1000" using assms by presburger+
  then show ?thesis
    using assms by (subst str_digits.simps) (simp add: str_digits_length_3)
qed

lemma zfill_2_length:
  assumes "0 \<le> n" and "n < 100"
  shows "length (zfill 2 (str_digits n)) = 2"
proof (cases "n < 10")
  case True
  then show ?thesis by (simp add: zfill_def str_digits_length_1)
next
  case False
  then show ?thesis using assms by (simp add: zfill_def str_digits_length_2)
qed

lemma strftime_Ymd_shape:
  assumes "1000 \<le> year t" and "year t < 10000"
    and "0 \<le> month t" and "month t < 100" and "0 \<le> day t" and "day t < 100"
  shows "length (strftime_Ymd t) = 10 \<and> strftime_Ymd t ! 4 = CHR ''-''
         \<and> strftime_Ymd t ! 7 = CHR ''-''"
proof -
  let ?y = "zfill 4 (str_digits (year t))"
  let ?m = "zfill 2 (str_digits (month t))"
  let ?d = "zfill 2 (str_digits (day t))"
  have y: "length ?y = 4" using assms(1,2) by (simp add: zfill_def str_digits_length_4)
  have m: "length ?m = 2" using assms(3,4) by (rule zfill_2_length)
  have d: "length ?d = 2" using assms(5,6) by (rule zfill_2_length)
  have s: "strftime_Ymd t = ?y @ CHR ''-'' # ?m @ CHR ''-'' # ?d"
    by (simp add: strftime_Ymd_def)
  show ?thesis
    unfolding s using y m d by (simp add: nth_append)
qed

text \<open>
  Claim C9. For every file path, no token of the base name contains a dash (every dash was
  replaced by an underscore before the split), so the date test of line 63 is false on
  every token, and the date that \<open>mock_ai_extract\<close> returns is the current date as
  \<^verbatim>\<open>strftime("%Y-%m-%d")\<close> formats it.
\<close>

theorem date_rule_never_fires:
  "list_all (\<lambda>p. CHR ''-'' \<notin> set p) (name_parts file_path)
   \<and> list_all (\<lambda>p. \<not> (length p = 10 \<and> p ! 4 = CHR ''-'' \<and> p ! 7 = CHR ''-''))
        (name_parts file_path)
   \<and> map_of (mock_ai_extract now1 now2 file_path) ''date'' = Some (PStr (strftime_Ymd now2))"
proof -
  have "list_all (\<lambda>p. \<not> (length p = 10 \<and> p ! 4 = CHR ''-'' \<and> p ! 7 = CHR ''-''))
          (name_parts file_path)"
    using name_parts_no_dash [of _ file_path] date_rule_needs_dash
    by (auto simp: list_all_iff)
  then show ?thesis
    by (simp add: name_parts_all_no_dash mock_ai_extract_date)
qed

theorem date_rule_never_fires_witness:
  "map_of (mock_ai_extract example_clock example_clock ''acme_250.50_2024-03-01.pdf'') ''date''
     = Some (PStr ''2024-05-07'')"
proof -
  have "strftime_Ymd example_clock = ''2024-05-07''"
    by code_simp
  then show ?thesis
    using date_rule_never_fires [of "''acme_250.50_2024-03-01.pdf''" example_clock example_clock]
    by simp
qed

subsection \<open>The two file names of the spec\<close>

lemmas scan_defs =
  scan_part_def Let_def isdigit_def isalpha_def is_digit_char_def is_alpha_char_def
  replace_first_by_empty_def upper_char_def lower_char_def float_of_str_def digits_value_def
  digit_val_def

lemma acme_parts:
  "name_parts ''acme_250.50_2024-03-01.pdf'' = [''acme'', ''250.50'', ''2024'', ''03'', ''01'']"
  by code_simp

lemma scan_acme: "scan_part ''acme'' (v, t, d) = (''Acme'', t, d)"
  by (simp add: scan_defs)

lemma scan_250: "scan_part ''250.50'' (v, t, d) = (v, 501 / 2, d)"
  by (simp add: scan_defs)

lemma scan_2024: "scan_part ''2024'' (v, t, d) = (v, 2024, d)"
  by (simp add: scan_defs)

lemma scan_03: "scan_part ''03'' (v, t, d) = (v, 3, d)"
  by (simp add: scan_defs)

lemma scan_01: "scan_part ''01'' (v, t, d) = (v, 1, d)"
  by (simp add: scan_defs)

lemma acme_direct:
  "mock_ai_extract now1 now2 ''acme_250.50_2024-03-01.pdf'' =
     [(''vendor_name'', PStr ''Acme''),
      (''invoice_number'', PStr (''INV-'' @ str_int (posix now1))),
      (''total_amount'', PFloat 1),
      (''date'', PStr (strftime_Ymd now2))]"
  by (simp add: mock_ai_extract_def mock_ai_scan_def acme_parts scan_acme scan_250 scan_2024
      scan_03 scan_01)

lemma acme_upload:
  "fst (upload_invoice empty_backend example_env acme_file (Some ''alice''))
     = Inr [(''id'', PStr ''0000000000000000000000ff''),
            (''vendor_name'', PStr ''Acme''),
            (''invoice_number'', PStr ''INV-1715000000''),
            (''total_amount'', PFloat 1),
            (''date'', PStr ''2024-05-07''),
            (''status'', PStr ''Needs Review'')]"
  by code_simp

lemma alice_backend_from_upload:
  "collections (snd (upload_invoice empty_backend example_env acme_file (Some ''alice'')))
     ''invoice'' = collections alice_backend ''invoice''"
  by code_simp

text \<open>
  Claim C1. The spec expects the file name \<^verbatim>\<open>acme_250.50_2024-03-01.pdf\<close> to give the vendor
  \<^verbatim>\<open>Acme\<close>, the amount 250.50 and the date \<^verbatim>\<open>2024-03-01\<close>. The code gives the vendor
  \<^verbatim>\<open>Acme\<close>, but the amount 1 and the current date, whatever the clock reads: the date of
  the name is cut into the tokens \<^verbatim>\<open>2024\<close>, \<^verbatim>\<open>03\<close> and \<^verbatim>\<open>01\<close>, each of which passes the number
  test, and the last one wins. The same values come back from \<open>upload_invoice\<close>, here on
  7 May 2024.
\<close>

theorem acme_file_name_extraction:
  "mock_ai_extract now1 now2 ''acme_250.50_2024-03-01.pdf'' =
     [(''vendor_name'', PStr ''Acme''),
      (''invoice_number'', PStr (''INV-'' @ str_int (posix now1))),
      (''total_amount'', PFloat 1),
      (''date'', PStr (strftime_Ymd now2))]
   \<and> fst (upload_invoice empty_backend example_env acme_file (Some ''alice''))
     = Inr [(''id'', PStr ''0000000000000000000000ff''),
            (''vendor_name'', PStr ''Acme''),
            (''invoice_number'', PStr ''INV-1715000000''),
            (''total_amount'', PFloat 1),
            (''date'', PStr ''2024-05-07''),
            (''status'', PStr ''Needs Review'')]"
  using acme_direct acme_upload by simp

subsection \<open>The stored name of an uploaded \<^verbatim>\<open>receipt.pdf\<close>\<close>























subsection \<open>A successful upload, unfolded\<close>








section \<open>Properties of the store\<close>

lemma map_of_apply_set_other:
  "k \<notin> fst ` set ups \<Longrightarrow> map_of (apply_set ups d) k = map_of d k"
proof (induction ups arbitrary: d)
  case Nil
  then show ?case by (simp add: apply_set_def)
next
  case (Cons u us)
  have "map_of (apply_set (u # us) d) k = map_of (apply_set us (AList.update (fst u) (snd u) d)) k"
    by (simp add: apply_set_def)
  also have "\<dots> = map_of (AList.update (fst u) (snd u) d) k"
    using Cons by simp
  also have "\<dots> = map_of d k"
    using Cons.prems by (simp add: update_conv')
  finally show ?case .
qed

lemma apply_set_keeps_non_null:
  "PNone \<notin> snd ` set ups \<Longrightarrow> map_of (apply_set ups d) k = Some PNone \<Longrightarrow> map_of d k = Some PNone"
proof (induction ups arbitrary: d)
  case Nil
  then show ?case by (simp add: apply_set_def)
next
  case (Cons u us)
  have "map_of (apply_set us (AList.update (fst u) (snd u) d)) k = Some PNone"
    using Cons.prems(2) by (simp add: apply_set_def)
  then have "map_of (AList.update (fst u) (snd u) d) k = Some PNone"
    using Cons.IH Cons.prems(1) by simp
  then show ?case
    using Cons.prems(1) by (auto simp: update_conv' split: if_splits)
qed

lemma update_first_column:
  "k \<notin> fst ` set ups \<Longrightarrow>
   map (\<lambda>d. map_of d k) (fst (update_first flt ups ds)) = map (\<lambda>d. map_of d k) ds"
  by (induction ds) (auto simp: map_of_apply_set_other split: prod.splits)

lemma update_first_keeps_non_null:
  "PNone \<notin> snd ` set ups \<Longrightarrow>
   list_all2 (\<lambda>d' d. map_of d' k = Some PNone \<longrightarrow> map_of d k = Some PNone)
     (fst (update_first flt ups ds)) ds"
proof (induction ds)
  case Nil
  then show ?case by simp
next
  case (Cons d ds)
  have refl: "list_all2 (\<lambda>d' d. map_of d' k = Some PNone \<longrightarrow> map_of d k = Some PNone) ds ds"
    by (simp add: list_all2_same)
  show ?case
    using Cons refl apply_set_keeps_non_null [of ups d k]
    by (auto split: prod.splits)
qed

lemma update_first_no_match:
  "\<not> list_ex (matches flt) ds \<Longrightarrow> update_first flt ups ds = (ds, 0)"
  by (induction ds) (auto split: prod.splits)

lemma update_one_frame:
  assumes "update_one b fault coll flt ups = Inr (b', n)"
  shows "collections b' coll = fst (update_first flt ups (collections b coll))"
    and "c \<noteq> coll \<Longrightarrow> collections b' c = collections b c"
    and "n = snd (update_first flt ups (collections b coll))"
proof -
  from assms have "fault = None" and "\<not> (ups = [] \<and> empty_set_rejected b)"
    by (auto simp: update_one_def split: option.splits if_splits)
  with assms have
    "b' = b\<lparr>collections := (collections b)(coll := fst (update_first flt ups (collections b coll)))\<rparr>"
    and n: "n = snd (update_first flt ups (collections b coll))"
    by (auto simp: update_one_def split: prod.splits)
  then show "collections b' coll = fst (update_first flt ups (collections b coll))"
    and "c \<noteq> coll \<Longrightarrow> collections b' c = collections b c"
    and "n = snd (update_first flt ups (collections b coll))"
    by simp_all
qed

lemma lookup_in_filtered:
  assumes "distinct (map fst al)"
  shows "map_of (filter Q al) key =
           Option.bind (map_of al key) (\<lambda>v. if Q (key, v) then Some v else None)"
  using assms
proof (induction al)
  case Nil
  show ?case by simp
next
  case (Cons entry al)
  obtain k' v' where entry: "entry = (k', v')" by (cases entry)
  from Cons.prems entry have "k' \<notin> fst ` set al" by simp
  then have absent: "map_of al k' = None" by (simp add: map_of_eq_None_iff)
  from Cons have IH: "map_of (filter Q al) key =
           Option.bind (map_of al key) (\<lambda>v. if Q (key, v) then Some v else None)"
    by simp
  show ?case
  proof (cases "key = k'")
    case True
    with IH entry absent show ?thesis by simp
  next
    case False
    with IH entry show ?thesis by simp
  qed
qed

lemma model_dump_distinct: "distinct (map fst (model_dump payload))"
  by (simp add: model_dump_def)

lemma updates_of_lookup:
  "map_of (updates_of payload) k =
     (if k \<noteq> ''invoice_id'' \<and> map_of (model_dump payload) k \<noteq> Some PNone
      then map_of (model_dump payload) k else None)"
  unfolding updates_of_def
  by (cases "map_of (model_dump payload) k")
     (simp_all add: lookup_in_filtered [OF model_dump_distinct])

lemma updates_of_non_null: "PNone \<notin> snd ` set (updates_of payload)"
  unfolding updates_of_def by auto

lemma updates_of_keys:
  assumes "map_of (model_dump payload) k = Some PNone"
  shows "k \<notin> fst ` set (updates_of payload)"
proof -
  have "map_of (updates_of payload) k = None"
    using assms by (simp add: updates_of_lookup)
  then show ?thesis by (simp add: map_of_eq_None_iff)
qed

section \<open>Properties of \<open>update_invoice\<close>\<close>

lemma update_invoice_try_backend:
  "snd (update_invoice_try b fault payload u) = b
   \<or> (\<exists>oid b' n. ObjectId (invoice_id payload) = Inr oid
        \<and> update_one b fault ''invoice''
             [(''_id'', PObjectId oid), (''user_id'', PStr u)] (updates_of payload) = Inr (b', n)
        \<and> snd (update_invoice_try b fault payload u) = b')"
  by (auto simp: update_invoice_try_def Let_def split: sum.splits prod.splits)

lemma update_invoice_backend:
  "snd (update_invoice b fault payload current_user) = b
   \<or> (\<exists>u oid b' n. current_user = Some u \<and> ObjectId (invoice_id payload) = Inr oid
        \<and> update_one b fault ''invoice''
             [(''_id'', PObjectId oid), (''user_id'', PStr u)] (updates_of payload) = Inr (b', n)
        \<and> snd (update_invoice b fault payload current_user) = b')"
proof (cases current_user)
  case None
  then show ?thesis by (simp add: update_invoice_def)
next
  case (Some u)
  have "snd (update_invoice b fault payload current_user) = snd (update_invoice_try b fault payload u)"
    using Some by (simp add: update_invoice_def split: prod.splits sum.splits)
  with update_invoice_try_backend [of b fault payload u] Some show ?thesis by auto
qed

text \<open>
  Claim C7. For every call of \<open>update_invoice\<close>, whatever its outcome: a field that is
  null in the request keeps, in every stored invoice, the value it had; the patch holds
  exactly the fields of the request other than \<open>invoice_id\<close> that are not null, with the
  request's values; no field of a stored invoice that was not null becomes null; and no
  other collection changes.
\<close>

theorem update_invoice_frame:
  "(map_of (model_dump payload) k = Some PNone \<longrightarrow>
      map (\<lambda>d. map_of d k) (collections (snd (update_invoice b fault payload current_user)) ''invoice'')
      = map (\<lambda>d. map_of d k) (collections b ''invoice''))
   \<and> map_of (updates_of payload) k =
     (if k \<noteq> ''invoice_id'' \<and> map_of (model_dump payload) k \<noteq> Some PNone
      then map_of (model_dump payload) k else None)
   \<and> list_all2 (\<lambda>d' d. map_of d' k = Some PNone \<longrightarrow> map_of d k = Some PNone)
       (collections (snd (update_invoice b fault payload current_user)) ''invoice'')
       (collections b ''invoice'')
   \<and> (c \<noteq> ''invoice'' \<longrightarrow>
       collections (snd (update_invoice b fault payload current_user)) c = collections b c)"
proof -
  let ?b' = "snd (update_invoice b fault payload current_user)"
  consider (same) "?b' = b"
    | (upd) u oid n where "update_one b fault ''invoice''
             [(''_id'', PObjectId oid), (''user_id'', PStr u)] (updates_of payload) = Inr (?b', n)"
    using update_invoice_backend [of b fault payload current_user] by auto
  then show ?thesis
  proof cases
    case same
    then show ?thesis by (simp add: updates_of_lookup list_all2_same)
  next
    case upd
    note fr = update_one_frame [OF upd]
    have 1: "map_of (model_dump payload) k = Some PNone \<Longrightarrow>
      map (\<lambda>d. map_of d k) (collections ?b' ''invoice'') = map (\<lambda>d. map_of d k) (collections b ''invoice'')"
      using fr(1) updates_of_keys [of payload k] by (simp add: update_first_column)
    have 3: "list_all2 (\<lambda>d' d. map_of d' k = Some PNone \<longrightarrow> map_of d k = Some PNone)
       (collections ?b' ''invoice'') (collections b ''invoice'')"
      using fr(1) update_first_keeps_non_null [OF updates_of_non_null] by simp
    have 4: "c \<noteq> ''invoice'' \<Longrightarrow> collections ?b' c = collections b c"
      using fr(2) by simp
    show ?thesis using 1 3 4 updates_of_lookup by blast
  qed
qed

theorem update_invoice_frame_witness:
  "map_of (model_dump (update_request ''0000000000000000000000ff'' None (Some ''Approved'')))
      ''vendor_name'' = Some PNone
   \<and> fst (update_invoice alice_backend None
            (update_request ''0000000000000000000000ff'' None (Some ''Approved'')) (Some ''alice''))
       = Inr [(''ok'', PBool True)]
   \<and> map (\<lambda>d. map_of d ''status'')
        (collections (snd (update_invoice alice_backend None
            (update_request ''0000000000000000000000ff'' None (Some ''Approved'')) (Some ''alice'')))
           ''invoice'')
       = [Some (PStr ''Approved'')]
   \<and> map (\<lambda>d. map_of d ''vendor_name'')
        (collections (snd (update_invoice alice_backend None
            (update_request ''0000000000000000000000ff'' None (Some ''Approved'')) (Some ''alice'')))
           ''invoice'')
       = [Some (PStr ''Acme'')]"
proof -
  let ?rq = "update_request ''0000000000000000000000ff'' None (Some ''Approved'')"
  have h: "map_of (model_dump ?rq) ''vendor_name'' = Some PNone"
    by (simp add: model_dump_def update_request_def opt_str_def)
  have r: "fst (update_invoice alice_backend None ?rq (Some ''alice'')) = Inr [(''ok'', PBool True)]"
    by code_simp
  have s: "map (\<lambda>d. map_of d ''status'')
        (collections (snd (update_invoice alice_backend None ?rq (Some ''alice''))) ''invoice'')
       = [Some (PStr ''Approved'')]"
    by code_simp
  have old: "map (\<lambda>d. map_of d ''vendor_name'') (collections alice_backend ''invoice'')
       = [Some (PStr ''Acme'')]"
    by (simp add: alice_backend_def alice_invoice_def)
  show ?thesis
    using update_invoice_frame [of ?rq "''vendor_name''" alice_backend None "Some ''alice''"]
      h r s old
    by simp
qed

lemma update_invoice_never_404:
  "fst (update_invoice b fault payload current_user) \<noteq> Inl (HTTPException 404 d)"
  by (simp add: update_invoice_def split: option.splits prod.splits sum.splits)

lemma update_other_owner:
  "fst (update_invoice alice_backend None
          (update_request ''0000000000000000000000ff'' None (Some ''Approved'')) (Some ''bob''))
     = Inl (HTTPException 400 (StrOf (HTTPException 404 (Text ''Invoice not found''))))"
  by code_simp

lemma update_other_owner_frame:
  "collections (snd (update_invoice alice_backend None
          (update_request ''0000000000000000000000ff'' None (Some ''Approved'')) (Some ''bob'')))
     ''invoice'' = [alice_invoice]"
  by code_simp

lemma update_missing_invoice:
  "fst (update_invoice alice_backend None
          (update_request ''0000000000000000000000aa'' None (Some ''Approved'')) (Some ''alice''))
     = Inl (HTTPException 400 (StrOf (HTTPException 404 (Text ''Invoice not found''))))"
  by code_simp

text \<open>
  In general: a well-formed identifier that matches no invoice of the caller gives status
  400, and no collection changes.
\<close>

lemma update_invoice_no_match:
  assumes "ObjectId (invoice_id payload) = Inr oid"
    and "\<not> list_ex (matches [(''_id'', PObjectId oid), (''user_id'', PStr u)])
             (collections b ''invoice'')"
    and "\<not> (updates_of payload = [] \<and> empty_set_rejected b)"
  shows "fst (update_invoice b None payload (Some u))
           = Inl (HTTPException 400 (StrOf (HTTPException 404 (Text ''Invoice not found''))))"
    and "collections (snd (update_invoice b None payload (Some u))) = collections b"
  using assms
  by (auto simp: update_invoice_def update_invoice_try_def update_one_def Let_def
      update_first_no_match)

text \<open>
  Claim C2. The spec expects NotFound when the invoice belongs to another owner or does
  not exist. The \<^verbatim>\<open>raise HTTPException(status_code=404)\<close> of line 179 stands inside the
  \<^verbatim>\<open>try\<close> whose \<^verbatim>\<open>except Exception\<close> of line 180 catches it and raises status 400 in its
  place: \<open>update_invoice\<close> never answers 404, on any input. Bob naming alice's invoice,
  and alice naming an invoice that does not exist, both get 400; the stored invoice is
  not modified.
\<close>

theorem update_invoice_not_found_is_400:
  "fst (update_invoice b fault payload current_user) \<noteq> Inl (HTTPException 404 d)
   \<and> fst (update_invoice alice_backend None
          (update_request ''0000000000000000000000ff'' None (Some ''Approved'')) (Some ''bob''))
     = Inl (HTTPException 400 (StrOf (HTTPException 404 (Text ''Invoice not found''))))
   \<and> collections (snd (update_invoice alice_backend None
          (update_request ''0000000000000000000000ff'' None (Some ''Approved'')) (Some ''bob'')))
       ''invoice'' = [alice_invoice]
   \<and> fst (update_invoice alice_backend None
          (update_request ''0000000000000000000000aa'' None (Some ''Approved'')) (Some ''alice''))
     = Inl (HTTPException 400 (StrOf (HTTPException 404 (Text ''Invoice not found''))))"
  using update_invoice_never_404 update_other_owner update_other_owner_frame
    update_missing_invoice
  by simp

lemma negative_update_accepted:
  "fst (update_invoice alice_backend None
          (update_request ''0000000000000000000000ff'' (Some (- 5)) None) (Some ''alice''))
     = Inr [(''ok'', PBool True)]"
  by code_simp

lemma negative_update_stored:
  "map (\<lambda>d. map_of d ''total_amount'')
     (collections (snd (update_invoice alice_backend None
          (update_request ''0000000000000000000000ff'' (Some (- 5)) None) (Some ''alice'')))
        ''invoice'')
     = [Some (PFloat (- 5))]"
  by code_simp

lemma Invoice_rejects_negative:
  "Invoice ''alice'' None None None None None (Some (- 5)) ''Processing''
     = Inl (ValidationError ''total_amount'')"
  by code_simp

text \<open>
  Claim C4. The spec expects \<open>update_invoice\<close> to reject a negative total. The request
  model of lines 35-41 puts no bound on \<open>total_amount\<close> and line 177 writes the request's
  value into the store without constructing the \<open>Invoice\<close> schema, whose \<^verbatim>\<open>ge=0\<close> would
  reject it: alice's request to set the total of her invoice to \<open>-5\<close> is answered
  \<^verbatim>\<open>{"ok": true}\<close> and the stored total is \<open>-5\<close>.
\<close>

theorem negative_total_amount_is_stored:
  "fst (update_invoice alice_backend None
          (update_request ''0000000000000000000000ff'' (Some (- 5)) None) (Some ''alice''))
     = Inr [(''ok'', PBool True)]
   \<and> map (\<lambda>d. map_of d ''total_amount'')
       (collections (snd (update_invoice alice_backend None
          (update_request ''0000000000000000000000ff'' (Some (- 5)) None) (Some ''alice'')))
        ''invoice'')
     = [Some (PFloat (- 5))]
   \<and> Invoice ''alice'' None None None None None (Some (- 5)) ''Processing''
     = Inl (ValidationError ''total_amount'')"
  using negative_update_accepted negative_update_stored Invoice_rejects_negative
  by simp



section \<open>Properties of \<open>upload_invoice\<close>\<close>







section \<open>Properties of \<open>create_user\<close>\<close>

text \<open>
  Claim C8. For every valid call of \<open>create_user\<close> (the tier and the role are among the
  schema's literals, and the store accepts the insert) the call returns the new identifier
  and the stored user has \<open>credits_remaining\<close> 50 when the tier is \<^verbatim>\<open>Free\<close> and 1000
  otherwise, that is, for \<^verbatim>\<open>Pro\<close>.
\<close>

theorem create_user_credits:
  assumes "subscription_tier payload \<in> set [''Free'', ''Pro'']"
    and "role payload \<in> set [''admin'', ''customer'']"
    and "outcome = Inr oid"
  shows "fst (create_user b outcome payload) = Inr [(''id'', PStr (str_ObjectId oid))]
       \<and> collections (snd (create_user b outcome payload)) ''user''
         = collections b ''user'' @
            [[(''_id'', PObjectId oid),
              (''name'', PStr (name payload)),
              (''email'', PStr (email payload)),
              (''subscription_tier'', PStr (subscription_tier payload)),
              (''credits_remaining'',
                 PInt (if subscription_tier payload = ''Free'' then 50 else 1000)),
              (''role'', PStr (role payload))]]"
  using assms
  by (auto simp: create_user_def User_def create_document_def)

theorem create_user_credits_witness:
  "map (\<lambda>d. map_of d ''credits_remaining'')
     (collections (snd (create_user empty_backend (Inr 1)
        \<lparr>name = ''Ann'', email = ''ann@example.org'', subscription_tier = ''Free'',
         role = ''customer''\<rparr>)) ''user'')
    = [Some (PInt 50)]
   \<and> map (\<lambda>d. map_of d ''credits_remaining'')
     (collections (snd (create_user empty_backend (Inr 2)
        \<lparr>name = ''Bo'', email = ''bo@example.org'', subscription_tier = ''Pro'',
         role = ''admin''\<rparr>)) ''user'')
    = [Some (PInt 1000)]"
  using create_user_credits
      [of "\<lparr>name = ''Ann'', email = ''ann@example.org'', subscription_tier = ''Free'',
            role = ''customer''\<rparr>" "Inr 1" 1 empty_backend]
    create_user_credits
      [of "\<lparr>name = ''Bo'', email = ''bo@example.org'', subscription_tier = ''Pro'',
            role = ''admin''\<rparr>" "Inr 2" 2 empty_backend]
  by (simp add: empty_backend_def)

end
